theory Spec2Isabelle
  imports Main "HOL-Library.AList"
begin

section \<open>The fault-isolating wrapper \<open>PD_TOL\<close> of \<open>PDT.py\<close>\<close>

text \<open>
  \<open>PD_TOL(func)\<close> returns \<open>wrapper\<close>, which looks for a DataFrame among the bound
  arguments of the call, then among the globals of \<open>func\<close>, and runs \<open>func\<close> on copies
  of that frame, dropping the rows whose single-row run raises, until a run succeeds.

  A DataFrame is the list of its rows, each with its index label.  The wrapper reads
  the labels (\<open>df.index\<close>), takes rows by position (\<open>df.iloc\<close>) and drops rows by label
  (\<open>df.drop\<close>), so both are kept.  A label is an integer or something else (a string, a
  date).  \<open>None\<close> is \<open>PyNone\<close>, any other object is opaque.  A dictionary whose
  iteration order matters (\<open>ba.arguments\<close>, \<open>func.__globals__\<close>) is an association
  list.
\<close>

datatype label = IntL int | OtherL string

type_synonym 'r frame = "(label \<times> 'r) list"

datatype 'r pyval = DataFrame "'r frame" | PyNone | Opaque nat

type_synonym 'r bindings = "(string \<times> 'r pyval) list"

text \<open>
  The exceptions: those of \<open>func\<close> that \<open>except Exception\<close> catches, and the two
  that the wrapper's own pandas calls can raise in the handler.  \<open>KeyboardInterrupt\<close>
  and \<open>SystemExit\<close>, which \<open>except Exception\<close> lets through, are outside the model.
\<close>

datatype exn = IndexError | KeyError | TypeError | ValueError string

text \<open>
  The part of the process state that \<open>func\<close> can read and write: its module globals
  and whatever else it keeps (\<open>hidden\<close>: closures, counters, files).  \<open>ncalls\<close> is
  not a variable of the program: it counts the calls of \<open>func\<close> made so far, so that
  "called exactly once" can be stated.
\<close>

record ('r, 's) world =
  func_globals :: "'r bindings"
  hidden :: 's
  ncalls :: nat

text \<open>
  A call \<open>func(*ba.args, **ba.kwargs)\<close> takes the bound arguments and the world; it
  raises (\<open>Inl e\<close>) or returns (\<open>Inr v\<close>), and leaves the argument objects and the
  world as it mutated them.  A collection is a value here: \<open>func\<close> reaches a frame
  only through its arguments and through the world, so \<open>df.copy()\<close> is the frame itself
  and what \<open>func\<close> does to the copy shows in the argument bindings it leaves behind.
  The wrapper writes \<open>func(*args, **kwargs)\<close> where the frame is global or absent and
  \<open>func(*ba.args, **ba.kwargs)\<close> where it is an argument; both bind the parameters as
  \<open>ba.arguments\<close> has them, so the model has one form of call.
\<close>

type_synonym ('r, 's) host =
  "'r bindings \<Rightarrow> ('r, 's) world \<Rightarrow> (exn + 'r pyval) \<times> 'r bindings \<times> ('r, 's) world"

text \<open>
  Every call the wrapper makes goes through \<open>invoke\<close>, which runs \<open>func\<close> and sets the
  call counter to one more than before the call, whatever \<open>func\<close> did to the world.
\<close>

definition invoke :: "('r, 's) host \<Rightarrow> ('r, 's) host" where
  "invoke func ba w =
     (case func ba w of (out, ba', w') \<Rightarrow> (out, ba', w'\<lparr>ncalls := Suc (ncalls w)\<rparr>))"

subsection \<open>The pandas operations the wrapper uses\<close>

text \<open>
  \<open>pd.DataFrame(rows)\<close>, and what \<open>reset_index(drop=True)\<close> leaves: the labels are the
  positions \<open>0..n-1\<close>.
\<close>

definition frame :: "'r list \<Rightarrow> 'r frame" where
  "frame rows = zip (map (\<lambda>i. IntL (int i)) [0..<length rows]) rows"

definition reset_index :: "'r frame \<Rightarrow> 'r frame" where
  "reset_index df = frame (map snd df)"

text \<open>
  \<open>df.iloc[[i]]\<close>: the one-row frame at position \<open>i\<close>, with the label that row has.
  A negative \<open>i\<close> counts from the end.  \<open>None\<close> is the \<open>IndexError\<close> pandas raises
  for a position outside the frame and for an indexer that is not an integer.
\<close>

fun iloc :: "'r frame \<Rightarrow> label \<Rightarrow> 'r frame option" where
  "iloc df (IntL i) =
     (let n = int (length df) in
      if 0 \<le> i \<and> i < n then Some [df ! nat i]
      else if - n \<le> i \<and> i < 0 then Some [df ! nat (n + i)]
      else None)"
| "iloc df (OtherL s) = None"

text \<open>
  \<open>df.drop(list(bad_rows))\<close>: every row whose label is in \<open>bad_rows\<close> goes.  \<open>None\<close>
  is the \<open>KeyError\<close> pandas raises for a label the index does not have.
\<close>

definition drop_rows :: "label set \<Rightarrow> 'r frame \<Rightarrow> 'r frame option" where
  "drop_rows bad_rows df =
     (if bad_rows \<subseteq> fst ` set df then Some (filter (\<lambda>(l, r). l \<notin> bad_rows) df) else None)"

subsection \<open>Target resolution (lines 15-32)\<close>

text \<open>The first binding, in dictionary order, whose value is a DataFrame.\<close>

fun find_df :: "'r bindings \<Rightarrow> (string \<times> 'r frame) option" where
  "find_df [] = None"
| "find_df ((name, DataFrame d) # bs) = Some (name, d)"
| "find_df ((name, v) # bs) = find_df bs"

text \<open>\<open>func.__globals__[df_name] = v\<close>: item assignment keeps the key's position.\<close>

definition set_global :: "string \<Rightarrow> 'r pyval \<Rightarrow> ('r, 's) world \<Rightarrow> ('r, 's) world" where
  "set_global df_name v w = w\<lparr>func_globals := AList.update df_name v (func_globals w)\<rparr>"

subsection \<open>One attempt on the whole frame (lines 38-48)\<close>

text \<open>
  The body of the \<open>try\<close>.  The result is \<open>None\<close> when an exception reaches the
  \<open>except Exception\<close> clause, otherwise \<open>Some\<close> of the value \<open>df\<close> holds at the
  \<open>break\<close>.  With the frame in the globals the value is read back from the binding, and a
  binding that \<open>func\<close> deleted raises \<open>KeyError\<close> inside the \<open>try\<close>.  With the frame
  among the arguments a result of \<open>None\<close> leaves \<open>df\<close> as it was.
\<close>

definition attempt ::
  "('r, 's) host \<Rightarrow> bool \<Rightarrow> string \<Rightarrow> 'r bindings \<Rightarrow> 'r frame \<Rightarrow> ('r, 's) world
     \<Rightarrow> 'r pyval option \<times> 'r bindings \<times> ('r, 's) world" where
  "attempt func df_in_globals df_name ba df w =
     (if df_in_globals then
        (case invoke func ba (set_global df_name (DataFrame df) w) of
           (Inl e, ba', w') \<Rightarrow> (None, ba', w')
         | (Inr v, ba', w') \<Rightarrow>
             (case map_of (func_globals w') df_name of
                None \<Rightarrow> (None, ba', w')
              | Some g \<Rightarrow> (Some g, ba', w')))
      else
        (case invoke func (AList.update df_name (DataFrame df) ba) w of
           (Inl e, ba', w') \<Rightarrow> (None, ba', w')
         | (Inr result, ba', w') \<Rightarrow>
             (if result \<noteq> PyNone then (Some result, ba', w')
              else (Some (DataFrame df), ba', w'))))"

subsection \<open>Probing the rows one by one (lines 52-63)\<close>

text \<open>
  One run of the body of \<open>for i in df.index\<close>, where \<open>i\<close> is an index label.
  \<open>tmp = df.iloc[[i]].copy()\<close> stands before the inner \<open>try\<close>: when it raises, the
  exception leaves the handler and the wrapper (\<open>None\<close>).  Otherwise \<open>func\<close> runs on
  \<open>tmp\<close>; the result tells whether it raised, and the value it returns is dropped.
\<close>

definition probe ::
  "('r, 's) host \<Rightarrow> bool \<Rightarrow> string \<Rightarrow> 'r frame \<Rightarrow> label \<Rightarrow> 'r bindings \<Rightarrow> ('r, 's) world
     \<Rightarrow> (bool \<times> 'r bindings \<times> ('r, 's) world) option" where
  "probe func df_in_globals df_name df i ba w =
     (case iloc df i of
        None \<Rightarrow> None
      | Some tmp \<Rightarrow>
          Some (case (if df_in_globals then invoke func ba (set_global df_name (DataFrame tmp) w)
                      else invoke func (AList.update df_name (DataFrame tmp) ba) w) of
                  (Inl e, ba', w') \<Rightarrow> (True, ba', w')
                | (Inr v, ba', w') \<Rightarrow> (False, ba', w')))"

text \<open>
  The \<open>for\<close> loop over the labels, with \<open>bad_rows\<close> as its accumulator: \<open>Inr\<close> when
  it runs to its end, \<open>Inl\<close> with the state reached when \<open>iloc\<close> raises.
\<close>

fun probe_rows ::
  "('r, 's) host \<Rightarrow> bool \<Rightarrow> string \<Rightarrow> 'r frame \<Rightarrow> label list \<Rightarrow> label set \<Rightarrow> 'r bindings
     \<Rightarrow> ('r, 's) world
     \<Rightarrow> ('r bindings \<times> ('r, 's) world) + (label set \<times> 'r bindings \<times> ('r, 's) world)" where
  "probe_rows func df_in_globals df_name df [] bad_rows ba w = Inr (bad_rows, ba, w)"
| "probe_rows func df_in_globals df_name df (i # is) bad_rows ba w =
     (case probe func df_in_globals df_name df i ba w of
        None \<Rightarrow> Inl (ba, w)
      | Some (raised, ba', w') \<Rightarrow>
          probe_rows func df_in_globals df_name df is
            (if raised then insert i bad_rows else bad_rows) ba' w')"

subsection \<open>The loop (lines 33-74)\<close>

text \<open>
  One run of the body of the \<open>while\<close>.  It leaves the function (\<open>Stop\<close>): with \<open>df\<close>
  after a \<open>break\<close>, with \<open>None\<close> after the bare \<open>return\<close>, or with the exception a
  pandas call raised in the handler.  Or it goes back to the loop test with the frame
  that \<open>df.drop(list(bad_rows)).reset_index(drop=True)\<close> gives (\<open>Again\<close>).
\<close>

datatype ('r, 's) step =
  Stop "exn + 'r pyval" "'r bindings" "('r, 's) world"
| Again "'r frame" "'r bindings" "('r, 's) world"

definition loop_body ::
  "('r, 's) host \<Rightarrow> bool \<Rightarrow> string \<Rightarrow> 'r bindings \<Rightarrow> 'r frame \<Rightarrow> ('r, 's) world
     \<Rightarrow> ('r, 's) step" where
  "loop_body func df_in_globals df_name ba df w =
     (case attempt func df_in_globals df_name ba df w of
        (Some v, ba1, w1) \<Rightarrow> Stop (Inr v) ba1 w1
      | (None, ba1, w1) \<Rightarrow>
          (case probe_rows func df_in_globals df_name df (map fst df) {} ba1 w1 of
             Inl (ba2, w2) \<Rightarrow> Stop (Inl IndexError) ba2 w2
           | Inr (bad_rows, ba2, w2) \<Rightarrow>
               if bad_rows \<noteq> {} then
                 (case drop_rows bad_rows df of
                    None \<Rightarrow> Stop (Inl KeyError) ba2 w2
                  | Some dropped \<Rightarrow>
                      (let df' = reset_index dropped in
                       if length df' = 0 then
                         Stop (Inr PyNone) ba2
                           (if df_in_globals then set_global df_name (DataFrame df') w2 else w2)
                       else Again df' ba2 w2))
               else Stop (Inr (DataFrame df)) ba2 w2))"

text \<open>
  \<open>while last_len != len(df)\<close>, then \<open>return df\<close>.  \<open>last_len\<close> starts at \<open>-1\<close>, so
  it is an integer.
\<close>

function wrapper_loop ::
  "('r, 's) host \<Rightarrow> bool \<Rightarrow> string \<Rightarrow> 'r bindings \<Rightarrow> 'r frame \<Rightarrow> int \<Rightarrow> ('r, 's) world
     \<Rightarrow> (exn + 'r pyval) \<times> 'r bindings \<times> ('r, 's) world" where
  "wrapper_loop func df_in_globals df_name ba df last_len w =
     (if last_len \<noteq> int (length df) then
        (case loop_body func df_in_globals df_name ba df w of
           Stop out ba' w' \<Rightarrow> (out, ba', w')
         | Again df' ba' w' \<Rightarrow>
             wrapper_loop func df_in_globals df_name ba' df' (int (length df)) w')
      else (Inr (DataFrame df), ba, w))"
  by pat_completeness auto
termination
proof (relation "measure (\<lambda>(func, g, name, ba, df, last_len, w).
          if last_len = int (length df) then 0 else Suc (length df))", goal_cases)
  case 1
  show ?case by simp
next
  case (2 func g name ba df last_len w df' ba' w')
  have "length (reset_index dropped) \<le> length df"
    if "drop_rows bad df = Some dropped" for bad dropped
    using that by (auto simp: drop_rows_def reset_index_def frame_def split: if_splits)
  with 2 have "length df' \<le> length df"
    by (auto simp: loop_body_def Let_def
             split: prod.splits option.splits sum.splits if_splits)
  with 2 show ?case by simp
qed

declare wrapper_loop.simps [simp del]

subsection \<open>The wrapper (lines 8-74)\<close>

definition wrapper ::
  "('r, 's) host \<Rightarrow> 'r bindings \<Rightarrow> ('r, 's) world
     \<Rightarrow> (exn + 'r pyval) \<times> 'r bindings \<times> ('r, 's) world" where
  "wrapper func ba w =
     (case find_df ba of
        Some (df_name, df) \<Rightarrow> wrapper_loop func False df_name ba df (- 1) w
      | None \<Rightarrow>
          (case find_df (func_globals w) of
             Some (df_name, df) \<Rightarrow> wrapper_loop func True df_name ba df (- 1) w
           | None \<Rightarrow> invoke func ba w))"

subsection \<open>The loop with a bound on its rounds\<close>

text \<open>
  \<open>loop_n n\<close> is \<open>wrapper_loop\<close> allowed to run the body of the \<open>while\<close> at most
  \<open>n\<close> times; it is \<open>None\<close> when the loop would need another round.
\<close>

fun loop_n ::
  "nat \<Rightarrow> ('r, 's) host \<Rightarrow> bool \<Rightarrow> string \<Rightarrow> 'r bindings \<Rightarrow> 'r frame \<Rightarrow> int
     \<Rightarrow> ('r, 's) world \<Rightarrow> ((exn + 'r pyval) \<times> 'r bindings \<times> ('r, 's) world) option" where
  "loop_n 0 func df_in_globals df_name ba df last_len w =
     (if last_len \<noteq> int (length df) then None else Some (Inr (DataFrame df), ba, w))"
| "loop_n (Suc n) func df_in_globals df_name ba df last_len w =
     (if last_len \<noteq> int (length df) then
        (case loop_body func df_in_globals df_name ba df w of
           Stop out ba' w' \<Rightarrow> Some (out, ba', w')
         | Again df' ba' w' \<Rightarrow>
             loop_n n func df_in_globals df_name ba' df' (int (length df)) w')
      else Some (Inr (DataFrame df), ba, w))"

subsection \<open>Host operations used as test inputs\<close>

text \<open>
  Rows are natural numbers.  \<open>salary_k\<close> follows \<open>calculate_salary_in_thousands\<close> of
  \<open>example_usage.py\<close>: it takes the frame as its parameter \<open>df\<close>, raises when a row
  is not a usable number (here: the row \<open>0\<close>) and returns the frame it computed in
  place.  Labels stay as they are.
\<close>

definition salary_k :: "(nat, unit) host" where
  "salary_k ba w =
     (case map_of ba ''df'' of
        Some (DataFrame d) \<Rightarrow>
          (if 0 \<in> snd ` set d then (Inl TypeError, ba, w)
           else (Inr (DataFrame (map (\<lambda>(l, x). (l, x * 1000)) d)),
                 AList.update ''df'' (DataFrame (map (\<lambda>(l, x). (l, x * 1000)) d)) ba, w))
      | _ \<Rightarrow> (Inl TypeError, ba, w))"

text \<open>The same operation written without a \<open>return\<close>: it changes its argument in place.\<close>

definition salary_k_in_place :: "(nat, unit) host" where
  "salary_k_in_place ba w =
     (case map_of ba ''df'' of
        Some (DataFrame d) \<Rightarrow>
          (if 0 \<in> snd ` set d then (Inl TypeError, ba, w)
           else (Inr PyNone,
                 AList.update ''df'' (DataFrame (map (\<lambda>(l, x). (l, x * 1000)) d)) ba, w))
      | _ \<Rightarrow> (Inl TypeError, ba, w))"

text \<open>
  An operation with a second parameter: it multiplies every row by \<open>factor\<close>, and
  raises on the row \<open>0\<close>.
\<close>

definition scale :: "(nat, unit) host" where
  "scale ba w =
     (case (map_of ba ''df'', map_of ba ''factor'') of
        (Some (DataFrame d), Some (Opaque k)) \<Rightarrow>
          (if 0 \<in> snd ` set d then (Inl TypeError, ba, w)
           else (Inr (DataFrame (map (\<lambda>(l, x). (l, x * k)) d)), ba, w))
      | _ \<Rightarrow> (Inl TypeError, ba, w))"

text \<open>A check that spans rows: it raises when two rows of its parameter \<open>df\<close> are equal.\<close>

definition unique_key :: "(nat, unit) host" where
  "unique_key ba w =
     (case map_of ba ''df'' of
        Some (DataFrame d) \<Rightarrow>
          (if distinct (map snd d) then (Inr (DataFrame d), ba, w)
           else (Inl (ValueError ''duplicate key''), ba, w))
      | _ \<Rightarrow> (Inl TypeError, ba, w))"

text \<open>
  After \<open>modify_global_dataframe\<close>: no parameter, no result; it works on the global
  \<open>df_global\<close>, raises when a row is not a usable number and otherwise raises every
  row by one in place.
\<close>

definition modify_global :: "(nat, unit) host" where
  "modify_global ba w =
     (case map_of (func_globals w) ''df_global'' of
        Some (DataFrame d) \<Rightarrow>
          (if 0 \<in> snd ` set d then (Inl TypeError, ba, w)
           else (Inr PyNone, ba,
                 set_global ''df_global'' (DataFrame (map (\<lambda>(l, x). (l, Suc x)) d)) w))
      | _ \<Rightarrow> (Inl TypeError, ba, w))"

text \<open>The same on \<open>df_global\<close>, with the check that spans rows in place of the row check.\<close>

definition unique_global :: "(nat, unit) host" where
  "unique_global ba w =
     (case map_of (func_globals w) ''df_global'' of
        Some (DataFrame d) \<Rightarrow>
          (if distinct (map snd d) then
             (Inr PyNone, ba,
              set_global ''df_global'' (DataFrame (map (\<lambda>(l, x). (l, Suc x)) d)) w)
           else (Inl (ValueError ''duplicate key''), ba, w))
      | _ \<Rightarrow> (Inl TypeError, ba, w))"

text \<open>An operation that has no frame at all: it returns an opaque value.\<close>

definition no_frame :: "(nat, unit) host" where
  "no_frame ba w = (Inr (Opaque 7), ba, w)"

definition world0 :: "nat bindings \<Rightarrow> (nat, unit) world" where
  "world0 gs = \<lparr>func_globals = gs, hidden = (), ncalls = 0\<rparr>"

section \<open>Properties\<close>

lemmas run_defs = wrapper_def wrapper_loop.simps loop_body_def attempt_def probe_def
  invoke_def drop_rows_def reset_index_def frame_def set_global_def world0_def Let_def upt_rec

subsection \<open>Rounds and termination\<close>

lemma length_frame [simp]: "length (frame rows) = length rows"
  by (simp add: frame_def)

lemma length_reset_index [simp]: "length (reset_index df) = length df"
  by (simp add: reset_index_def)

lemma drop_rows_le: "drop_rows bad_rows df = Some dropped \<Longrightarrow> length dropped \<le> length df"
  by (auto simp: drop_rows_def split: if_splits)

lemma loop_body_Again_le:
  "loop_body func g name ba df w = Again df' ba' w' \<Longrightarrow> length df' \<le> length df"
  by (auto simp: loop_body_def Let_def dest: drop_rows_le
           split: prod.splits option.splits sum.splits if_splits)

lemma loop_n_enough:
  "last_len = int (length df) \<or> length df < n \<Longrightarrow>
     loop_n n func g name ba df last_len w = Some (wrapper_loop func g name ba df last_len w)"
proof (induction n arbitrary: ba df last_len w)
  case 0
  then show ?case by (simp add: wrapper_loop.simps)
next
  case (Suc n)
  show ?case
  proof (cases "last_len = int (length df)")
    case True
    then show ?thesis by (simp add: wrapper_loop.simps)
  next
    case False
    with Suc.prems have le: "length df \<le> n" by simp
    show ?thesis
    proof (cases "loop_body func g name ba df w")
      case (Stop out ba' w')
      with False show ?thesis by (simp add: wrapper_loop.simps[of func g name ba df])
    next
      case (Again df' ba' w')
      then have "length df' \<le> length df" by (rule loop_body_Again_le)
      with le have "int (length df) = int (length df') \<or> length df' < n" by auto
      then have "loop_n n func g name ba' df' (int (length df)) w'
                 = Some (wrapper_loop func g name ba' df' (int (length df)) w')"
        by (rule Suc.IH)
      with False Again show ?thesis by (simp add: wrapper_loop.simps[of func g name ba df])
    qed
  qed
qed

text \<open>
  C8.  For every host operation and every frame \<open>C\<close>, in either storage mode, the loop
  of the wrapper ends, and it ends within \<open>|C| + 1\<close> rounds: the loop that may run its
  body at most \<open>length C + 1\<close> times returns, and returns what \<open>wrapper_loop\<close> (a total
  function) returns from the initial state \<open>last_len = -1\<close>.
\<close>

theorem termination_bound:
  "loop_n (length C + 1) func df_in_globals df_name ba C (- 1) w
     = Some (wrapper_loop func df_in_globals df_name ba C (- 1) w)"
  by (rule loop_n_enough) simp

subsection \<open>Target resolution and the plain call\<close>

lemma find_df_Some: "find_df bs = Some (name, d) \<Longrightarrow> (name, DataFrame d) \<in> set bs"
  by (induction bs rule: find_df.induct) auto

lemma find_df_None_iff: "find_df bs = None \<longleftrightarrow> (\<forall>name d. (name, DataFrame d) \<notin> set bs)"
  by (induction bs rule: find_df.induct) auto

text \<open>
  C9.  When one of the bound arguments is a DataFrame, the wrapper runs its loop on a
  frame taken from the arguments, in the argument mode, whatever the globals hold.  When
  none is and a global of \<open>func\<close> is a DataFrame, it runs the loop on a frame taken
  from the globals, in the globals mode.  When neither holds a DataFrame, the wrapped call
  is one call of \<open>func\<close> on the arguments and the world as they were given: it returns
  (or raises) what that call returns (or raises) and leaves the state that call leaves,
  with the call counter one higher.
\<close>

theorem target_resolution:
  "((\<exists>name d. (name, DataFrame d) \<in> set ba) \<longrightarrow>
      (\<exists>name d. (name, DataFrame d) \<in> set ba \<and>
         wrapper func ba w = wrapper_loop func False name ba d (- 1) w))
   \<and> ((\<forall>name d. (name, DataFrame d) \<notin> set ba) \<and>
        (\<exists>name d. (name, DataFrame d) \<in> set (func_globals w)) \<longrightarrow>
      (\<exists>name d. (name, DataFrame d) \<in> set (func_globals w) \<and>
         wrapper func ba w = wrapper_loop func True name ba d (- 1) w))
   \<and> ((\<forall>name d. (name, DataFrame d) \<notin> set ba) \<and>
        (\<forall>name d. (name, DataFrame d) \<notin> set (func_globals w)) \<longrightarrow>
      wrapper func ba w =
        (case func ba w of (out, ba', w') \<Rightarrow> (out, ba', w'\<lparr>ncalls := Suc (ncalls w)\<rparr>)))"
proof (intro conjI impI)
  assume "\<exists>name d. (name, DataFrame d) \<in> set ba"
  then have "find_df ba \<noteq> None" by (simp add: find_df_None_iff)
  then obtain name d where f: "find_df ba = Some (name, d)" by auto
  then have "(name, DataFrame d) \<in> set ba" by (rule find_df_Some)
  with f show "\<exists>name d. (name, DataFrame d) \<in> set ba \<and>
         wrapper func ba w = wrapper_loop func False name ba d (- 1) w"
    by (auto simp: wrapper_def)
next
  assume a: "(\<forall>name d. (name, DataFrame d) \<notin> set ba) \<and>
        (\<exists>name d. (name, DataFrame d) \<in> set (func_globals w))"
  then have n: "find_df ba = None" by (simp add: find_df_None_iff)
  from a have "find_df (func_globals w) \<noteq> None" by (simp add: find_df_None_iff)
  then obtain name d where f: "find_df (func_globals w) = Some (name, d)" by auto
  then have "(name, DataFrame d) \<in> set (func_globals w)" by (rule find_df_Some)
  with f n show "\<exists>name d. (name, DataFrame d) \<in> set (func_globals w) \<and>
         wrapper func ba w = wrapper_loop func True name ba d (- 1) w"
    by (auto simp: wrapper_def)
next
  assume a: "(\<forall>name d. (name, DataFrame d) \<notin> set ba) \<and>
        (\<forall>name d. (name, DataFrame d) \<notin> set (func_globals w))"
  then have "find_df ba = None" "find_df (func_globals w) = None"
    by (simp_all add: find_df_None_iff)
  then show "wrapper func ba w =
        (case func ba w of (out, ba', w') \<Rightarrow> (out, ba', w'\<lparr>ncalls := Suc (ncalls w)\<rparr>))"
    by (simp add: wrapper_def invoke_def)
qed

text \<open>
  The three cases at concrete calls: a frame among the arguments wins over the global
  frame; without one the global frame is taken; without any frame \<open>no_frame\<close> is called
  once and its opaque result comes back.
\<close>

theorem target_resolution_witness:
  "(''df'', DataFrame (frame [5, 0])) \<in> set [(''n'', Opaque 1), (''df'', DataFrame (frame [5, 0 :: nat]))] \<and>
   wrapper salary_k [(''n'', Opaque 1), (''df'', DataFrame (frame [5, 0]))]
       (world0 [(''df_global'', DataFrame (frame [3]))])
     = wrapper_loop salary_k False ''df'' [(''n'', Opaque 1), (''df'', DataFrame (frame [5, 0]))]
         (frame [5, 0]) (- 1) (world0 [(''df_global'', DataFrame (frame [3]))]) \<and>
   find_df [(''n'', Opaque 1 :: nat pyval)] = None \<and>
   (''df_global'', DataFrame (frame [3]))
     \<in> set (func_globals (world0 [(''df_global'', DataFrame (frame [3]))])) \<and>
   wrapper modify_global [(''n'', Opaque 1)] (world0 [(''df_global'', DataFrame (frame [3]))])
     = wrapper_loop modify_global True ''df_global'' [(''n'', Opaque 1)] (frame [3]) (- 1)
         (world0 [(''df_global'', DataFrame (frame [3]))]) \<and>
   find_df (func_globals (world0 [(''y'', Opaque 2)])) = None \<and>
   wrapper no_frame [(''n'', Opaque 1)] (world0 [(''y'', Opaque 2)])
     = (Inr (Opaque 7), [(''n'', Opaque 1)], (world0 [(''y'', Opaque 2)])\<lparr>ncalls := 1\<rparr>)"
proof -
  have a1: "(''df'', DataFrame (frame [5, 0]))
              \<in> set [(''n'', Opaque 1), (''df'', DataFrame (frame [5, 0 :: nat]))]"
    by simp
  have n2: "find_df [(''n'', Opaque 1 :: nat pyval)] = None"
    by simp
  have a2: "\<forall>name d. (name, DataFrame d) \<notin> set [(''n'', Opaque 1 :: nat pyval)]"
    by (rule iffD1 [OF find_df_None_iff n2])
  have a3: "(''df_global'', DataFrame (frame [3]))
              \<in> set (func_globals (world0 [(''df_global'', DataFrame (frame [3]))]))"
    by (simp add: world0_def)
  have n4: "find_df (func_globals (world0 [(''y'', Opaque 2)])) = None"
    by (simp add: world0_def)
  have a4: "\<forall>name d. (name, DataFrame d) \<notin> set (func_globals (world0 [(''y'', Opaque 2)]))"
    by (rule iffD1 [OF find_df_None_iff n4])
  note t1 = target_resolution [of "[(''n'', Opaque 1), (''df'', DataFrame (frame [5, 0]))]"
      salary_k "world0 [(''df_global'', DataFrame (frame [3]))]"]
  note t2 = target_resolution [of "[(''n'', Opaque 1)]" modify_global
      "world0 [(''df_global'', DataFrame (frame [3]))]"]
  note t3 = target_resolution [of "[(''n'', Opaque 1)]" no_frame "world0 [(''y'', Opaque 2)]"]
  from t1 a1 have "\<exists>name d.
      (name, DataFrame d) \<in> set [(''n'', Opaque 1), (''df'', DataFrame (frame [5, 0 :: nat]))] \<and>
      wrapper salary_k [(''n'', Opaque 1), (''df'', DataFrame (frame [5, 0]))]
          (world0 [(''df_global'', DataFrame (frame [3]))])
        = wrapper_loop salary_k False name [(''n'', Opaque 1), (''df'', DataFrame (frame [5, 0]))] d
            (- 1) (world0 [(''df_global'', DataFrame (frame [3]))])"
    by blast
  then have c1: "wrapper salary_k [(''n'', Opaque 1), (''df'', DataFrame (frame [5, 0]))]
       (world0 [(''df_global'', DataFrame (frame [3]))])
     = wrapper_loop salary_k False ''df'' [(''n'', Opaque 1), (''df'', DataFrame (frame [5, 0]))]
         (frame [5, 0]) (- 1) (world0 [(''df_global'', DataFrame (frame [3]))])"
    by auto
  from t2 a2 a3 have "\<exists>name d.
      (name, DataFrame d) \<in> set (func_globals (world0 [(''df_global'', DataFrame (frame [3]))])) \<and>
      wrapper modify_global [(''n'', Opaque 1)] (world0 [(''df_global'', DataFrame (frame [3]))])
        = wrapper_loop modify_global True name [(''n'', Opaque 1)] d
            (- 1) (world0 [(''df_global'', DataFrame (frame [3]))])"
    by blast
  then have c2: "wrapper modify_global [(''n'', Opaque 1)]
       (world0 [(''df_global'', DataFrame (frame [3]))])
     = wrapper_loop modify_global True ''df_global'' [(''n'', Opaque 1)] (frame [3]) (- 1)
         (world0 [(''df_global'', DataFrame (frame [3]))])"
    by (auto simp: world0_def)
  from t3 a2 a4 have c3: "wrapper no_frame [(''n'', Opaque 1)] (world0 [(''y'', Opaque 2)])
     = (Inr (Opaque 7), [(''n'', Opaque 1)], (world0 [(''y'', Opaque 2)])\<lparr>ncalls := 1\<rparr>)"
    by (simp add: no_frame_def world0_def)
  from a1 c1 n2 a3 c2 n4 c3 show ?thesis by (intro conjI)
qed

subsection \<open>A first attempt that succeeds\<close>

text \<open>
  C5, as the code has it.  When the first call of \<open>func\<close>, on the whole frame, returns
  and, with the frame in the globals, the global binding is still there after the call,
  the wrapper makes no other call: the state it leaves is the state that call left, with
  the call counter one higher.  With the frame among the arguments it returns the result
  of \<open>func\<close> when that is not \<open>None\<close>, and the frame it started from when the result
  is \<open>None\<close>.  With the frame in the globals it returns the value the global binding
  holds after the call.
\<close>

theorem first_attempt_success:
  "(find_df ba = Some (df_name, df) \<and>
    invoke func (AList.update df_name (DataFrame df) ba) w = (Inr v, ba', w') \<longrightarrow>
      wrapper func ba w = (Inr (if v \<noteq> PyNone then v else DataFrame df), ba', w') \<and>
      ncalls w' = Suc (ncalls w))
   \<and> (find_df ba = None \<and> find_df (func_globals w) = Some (df_name, df) \<and>
       invoke func ba (set_global df_name (DataFrame df) w) = (Inr v, ba', w') \<and>
       map_of (func_globals w') df_name = Some g \<longrightarrow>
      wrapper func ba w = (Inr g, ba', w') \<and> ncalls w' = Suc (ncalls w))"
proof (intro conjI impI)
  assume a: "find_df ba = Some (df_name, df) \<and>
    invoke func (AList.update df_name (DataFrame df) ba) w = (Inr v, ba', w')"
  then show "wrapper func ba w = (Inr (if v \<noteq> PyNone then v else DataFrame df), ba', w')"
    by (simp add: wrapper_def wrapper_loop.simps[of func False df_name ba df]
          loop_body_def attempt_def)
  from a show "ncalls w' = Suc (ncalls w)"
    by (auto simp: invoke_def split: prod.splits)
next
  assume a: "find_df ba = None \<and> find_df (func_globals w) = Some (df_name, df) \<and>
       invoke func ba (set_global df_name (DataFrame df) w) = (Inr v, ba', w') \<and>
       map_of (func_globals w') df_name = Some g"
  then show "wrapper func ba w = (Inr g, ba', w')"
    by (simp add: wrapper_def wrapper_loop.simps[of func True df_name ba df]
          loop_body_def attempt_def)
  from a show "ncalls w' = Suc (ncalls w)"
    by (auto simp: invoke_def set_global_def split: prod.splits)
qed

theorem first_attempt_success_witness:
  "(find_df [(''df'', DataFrame (frame [5, 7]))] = Some (''df'', frame [5, 7]) \<and>
    invoke salary_k (AList.update ''df'' (DataFrame (frame [5, 7])) [(''df'', DataFrame (frame [5, 7]))])
        (world0 [])
      = (Inr (DataFrame (frame [5000, 7000])), [(''df'', DataFrame (frame [5000, 7000]))],
         (world0 [])\<lparr>ncalls := 1\<rparr>) \<and>
    wrapper salary_k [(''df'', DataFrame (frame [5, 7]))] (world0 [])
      = (Inr (DataFrame (frame [5000, 7000])), [(''df'', DataFrame (frame [5000, 7000]))],
         (world0 [])\<lparr>ncalls := 1\<rparr>))
   \<and> (find_df ([] :: nat bindings) = None \<and>
       find_df (func_globals (world0 [(''df_global'', DataFrame (frame [7, 8]))]))
         = Some (''df_global'', frame [7, 8]) \<and>
       invoke modify_global []
           (set_global ''df_global'' (DataFrame (frame [7, 8]))
              (world0 [(''df_global'', DataFrame (frame [7, 8]))]))
         = (Inr PyNone, [], (world0 [(''df_global'', DataFrame (frame [8, 9]))])\<lparr>ncalls := 1\<rparr>) \<and>
       map_of (func_globals ((world0 [(''df_global'', DataFrame (frame [8, 9]))])\<lparr>ncalls := 1\<rparr>))
           ''df_global''
         = Some (DataFrame (frame [8, 9])) \<and>
       wrapper modify_global [] (world0 [(''df_global'', DataFrame (frame [7, 8]))])
         = (Inr (DataFrame (frame [8, 9])), [],
            (world0 [(''df_global'', DataFrame (frame [8, 9]))])\<lparr>ncalls := 1\<rparr>))"
  using first_attempt_success [of "[(''df'', DataFrame (frame [5, 7]))]" "''df''" "frame [5, 7]"
          salary_k "world0 []" "DataFrame (frame [5000, 7000])"
          "[(''df'', DataFrame (frame [5000, 7000]))]" "(world0 [])\<lparr>ncalls := 1\<rparr>"]
        first_attempt_success [of "[]" "''df_global''" "frame [7, 8]" modify_global
          "world0 [(''df_global'', DataFrame (frame [7, 8]))]" PyNone "[]"
          "(world0 [(''df_global'', DataFrame (frame [8, 9]))])\<lparr>ncalls := 1\<rparr>"
          "DataFrame (frame [8, 9])"]
  by (simp add: invoke_def salary_k_def modify_global_def world0_def set_global_def frame_def
        upt_rec)

text \<open>
  C5 as the spec states it ("returns exactly that operation's result") fails for an
  operation that takes the frame as an argument and returns nothing:
  \<open>salary_k_in_place\<close> succeeds on the rows \<open>5, 7\<close> at the first attempt with the
  result \<open>None\<close>, and the wrapped call returns the frame \<open>5, 7\<close>.
\<close>

theorem first_attempt_result_counterexample:
  "find_df [(''df'', DataFrame (frame [5, 7::nat]))] = Some (''df'', frame [5, 7]) \<and>
   fst (invoke salary_k_in_place [(''df'', DataFrame (frame [5, 7]))] (world0 [])) = Inr PyNone \<and>
   fst (wrapper salary_k_in_place [(''df'', DataFrame (frame [5, 7]))] (world0 []))
     = Inr (DataFrame (frame [5, 7])) \<and>
   fst (wrapper salary_k_in_place [(''df'', DataFrame (frame [5, 7]))] (world0 []))
     \<noteq> fst (invoke salary_k_in_place [(''df'', DataFrame (frame [5, 7]))] (world0 []))"
  by (simp add: run_defs salary_k_in_place_def)

text \<open>
  C10.  With the frame among the arguments, an attempt (the first or a later one, on the
  current frame \<open>df\<close>) in which \<open>func\<close> returns \<open>None\<close> ends the loop with \<open>df\<close> as
  it was before the attempt.  What \<open>func\<close> did to the copy it was given is in the
  argument bindings \<open>ba'\<close> it left, and has no part in the value returned.
\<close>

theorem none_result_keeps_frame:
  assumes "last_len \<noteq> int (length df)"
    and "invoke func (AList.update df_name (DataFrame df) ba) w = (Inr PyNone, ba', w')"
  shows "wrapper_loop func False df_name ba df last_len w = (Inr (DataFrame df), ba', w')"
  using assms
  by (simp add: wrapper_loop.simps[of func False df_name ba df] loop_body_def attempt_def)

text \<open>
  A second round of \<open>salary_k_in_place\<close>: the copy becomes \<open>5000, 7000\<close>, the frame
  returned is \<open>5, 7\<close>.
\<close>

theorem none_result_keeps_frame_witness:
  "(3::int) \<noteq> int (length (frame [5, 7::nat])) \<and>
   invoke salary_k_in_place
       (AList.update ''df'' (DataFrame (frame [5, 7])) [(''df'', DataFrame [(IntL 2, 7)])])
       (world0 [])
     = (Inr PyNone, [(''df'', DataFrame (frame [5000, 7000]))], (world0 [])\<lparr>ncalls := 1\<rparr>) \<and>
   wrapper_loop salary_k_in_place False ''df'' [(''df'', DataFrame [(IntL 2, 7)])] (frame [5, 7]) 3
       (world0 [])
     = (Inr (DataFrame (frame [5, 7])), [(''df'', DataFrame (frame [5000, 7000]))],
        (world0 [])\<lparr>ncalls := 1\<rparr>)"
proof -
  have h1: "(3::int) \<noteq> int (length (frame [5, 7::nat]))" by simp
  have h2: "invoke salary_k_in_place
       (AList.update ''df'' (DataFrame (frame [5, 7])) [(''df'', DataFrame [(IntL 2, 7)])])
       (world0 [])
     = (Inr PyNone, [(''df'', DataFrame (frame [5000, 7000]))], (world0 [])\<lparr>ncalls := 1\<rparr>)"
    by (simp add: invoke_def salary_k_in_place_def world0_def frame_def upt_rec)
  show ?thesis using h1 h2 none_result_keeps_frame [OF h1 h2] by simp
qed

subsection \<open>A failure that no single row reproduces\<close>

text \<open>
  C1, as the code has it.  In any round, when the call on the whole frame raises, the
  \<open>for\<close> loop over the labels runs to its end (every label is a position of the frame)
  and no single-row call raises (\<open>bad_rows\<close> stays empty), the loop ends at once
  (\<open>break\<close>) and the wrapped call returns the current frame \<open>df\<close>, with no row removed.
  The exception \<open>e\<close> of the batch call is dropped: nothing is raised.
\<close>

theorem irreproducible_returns_frame:
  assumes "last_len \<noteq> int (length df)"
    and "(if df_in_globals then invoke func ba (set_global df_name (DataFrame df) w)
          else invoke func (AList.update df_name (DataFrame df) ba) w) = (Inl e, ba1, w1)"
    and "probe_rows func df_in_globals df_name df (map fst df) {} ba1 w1 = Inr ({}, ba2, w2)"
  shows "wrapper_loop func df_in_globals df_name ba df last_len w
           = (Inr (DataFrame df), ba2, w2)"
  using assms
  by (cases df_in_globals)
     (simp_all add: wrapper_loop.simps[of func _ df_name ba df] loop_body_def attempt_def)

theorem irreproducible_returns_frame_witness:
  "(- 1 :: int) \<noteq> int (length (frame [7, 7::nat])) \<and>
   (if False then invoke unique_key [(''df'', DataFrame (frame [7, 7]))]
                   (set_global ''df'' (DataFrame (frame [7, 7])) (world0 []))
    else invoke unique_key
           (AList.update ''df'' (DataFrame (frame [7, 7])) [(''df'', DataFrame (frame [7, 7]))])
           (world0 []))
     = (Inl (ValueError ''duplicate key''), [(''df'', DataFrame (frame [7, 7]))],
        (world0 [])\<lparr>ncalls := 1\<rparr>) \<and>
   probe_rows unique_key False ''df'' (frame [7, 7]) (map fst (frame [7, 7::nat])) {}
       [(''df'', DataFrame (frame [7, 7]))] ((world0 [])\<lparr>ncalls := 1\<rparr>)
     = Inr ({}, [(''df'', DataFrame [(IntL 1, 7)])], (world0 [])\<lparr>ncalls := 3\<rparr>) \<and>
   wrapper_loop unique_key False ''df'' [(''df'', DataFrame (frame [7, 7]))] (frame [7, 7]) (- 1)
       (world0 [])
     = (Inr (DataFrame (frame [7, 7])), [(''df'', DataFrame [(IntL 1, 7)])],
        (world0 [])\<lparr>ncalls := 3\<rparr>)"
proof -
  have h1: "(- 1 :: int) \<noteq> int (length (frame [7, 7::nat]))" by simp
  have h2: "(if False then invoke unique_key [(''df'', DataFrame (frame [7, 7]))]
                   (set_global ''df'' (DataFrame (frame [7, 7])) (world0 []))
    else invoke unique_key
           (AList.update ''df'' (DataFrame (frame [7, 7])) [(''df'', DataFrame (frame [7, 7]))])
           (world0 []))
     = (Inl (ValueError ''duplicate key''), [(''df'', DataFrame (frame [7, 7]))],
        (world0 [])\<lparr>ncalls := 1\<rparr>)"
    by (simp add: invoke_def unique_key_def world0_def frame_def upt_rec)
  have h3: "probe_rows unique_key False ''df'' (frame [7, 7]) (map fst (frame [7, 7::nat])) {}
       [(''df'', DataFrame (frame [7, 7]))] ((world0 [])\<lparr>ncalls := 1\<rparr>)
     = Inr ({}, [(''df'', DataFrame [(IntL 1, 7)])], (world0 [])\<lparr>ncalls := 3\<rparr>)"
    by (simp add: probe_def invoke_def unique_key_def world0_def frame_def upt_rec)
  show ?thesis using h1 h2 h3 irreproducible_returns_frame [OF h1 h2 h3] by simp
qed

text \<open>
  C1 as the spec states it (the original failure is raised to the caller) fails:
  \<open>unique_key\<close> raises on the two equal rows \<open>7, 7\<close> and on neither row alone, and
  the wrapped call returns the frame \<open>7, 7\<close> instead of raising.
\<close>

theorem irreproducible_abort_counterexample:
  "fst (invoke unique_key [(''df'', DataFrame (frame [7, 7]))] (world0 []))
     = Inl (ValueError ''duplicate key'') \<and>
   probe unique_key False ''df'' (frame [7, 7]) (IntL 0) [(''df'', DataFrame (frame [7, 7]))]
       (world0 [])
     = Some (False, [(''df'', DataFrame [(IntL 0, 7)])], (world0 [])\<lparr>ncalls := 1\<rparr>) \<and>
   probe unique_key False ''df'' (frame [7, 7]) (IntL 1) [(''df'', DataFrame (frame [7, 7]))]
       (world0 [])
     = Some (False, [(''df'', DataFrame [(IntL 1, 7)])], (world0 [])\<lparr>ncalls := 1\<rparr>) \<and>
   fst (wrapper unique_key [(''df'', DataFrame (frame [7, 7]))] (world0 []))
     = Inr (DataFrame (frame [7, 7])) \<and>
   fst (wrapper unique_key [(''df'', DataFrame (frame [7, 7]))] (world0 []))
     \<noteq> Inl (ValueError ''duplicate key'')"
  by (simp add: run_defs unique_key_def)

text \<open>
  C4 at the same kind of input, with the frame in the globals.  \<open>unique_global\<close> raises
  on the rows \<open>7, 7\<close> of \<open>df_global\<close> and on neither row alone.  The wrapped call
  returns the frame \<open>7, 7\<close>, and the global \<open>df_global\<close> it leaves is the one-row frame
  of the last probe, as \<open>func\<close> changed it: the line that writes \<open>df\<close> back to the
  global before the bare \<open>return\<close> has no counterpart before this \<open>break\<close>.
\<close>

theorem irreproducible_leaves_probe_in_global:
  "wrapper unique_global [] (world0 [(''df_global'', DataFrame (frame [7, 7]))])
     = (Inr (DataFrame (frame [7, 7])), [],
        \<lparr>func_globals = [(''df_global'', DataFrame [(IntL 1, 8)])], hidden = (), ncalls = 3\<rparr>)"
  by (simp add: run_defs unique_global_def)

subsection \<open>Every row fails\<close>

text \<open>
  C2 at two concrete calls.  \<open>salary_k\<close> raises on the frame \<open>0, 0\<close> and on each of
  its rows.  The wrapped call raises nothing, and what it returns is \<open>None\<close> (the bare
  \<open>return\<close> of line 73), not the empty frame.  With the frame in the globals
  (\<open>modify_global\<close> on the same rows) the global is set to the empty frame and the value
  returned is \<open>None\<close> again.
\<close>

theorem exhaustion_returns_none:
  "fst (wrapper salary_k [(''df'', DataFrame (frame [0, 0]))] (world0 [])) = Inr PyNone \<and>
   fst (wrapper salary_k [(''df'', DataFrame (frame [0, 0]))] (world0 [])) \<noteq> Inr (DataFrame []) \<and>
   wrapper modify_global [] (world0 [(''df_global'', DataFrame (frame [0, 0]))])
     = (Inr PyNone, [],
        \<lparr>func_globals = [(''df_global'', DataFrame [])], hidden = (), ncalls = 3\<rparr>)"
  by (simp add: run_defs salary_k_def modify_global_def)

subsection \<open>Labels taken as positions\<close>

text \<open>
  C6 at a concrete call.  The frame has the rows \<open>0\<close> and \<open>5\<close> with the labels \<open>1\<close>
  and \<open>0\<close> (a frame that was sorted or reversed).  \<open>salary_k\<close> raises on the row
  \<open>0\<close> alone and succeeds on the row \<open>5\<close> alone.  The \<open>for\<close> loop reads the label
  \<open>0\<close>, probes the row at position \<open>0\<close> (the row \<open>0\<close>, which fails) and records the
  label \<open>0\<close>; \<open>drop\<close> then removes the row labelled \<open>0\<close>, which is the row \<open>5\<close>.
  The next round starts from the row \<open>0\<close> alone: the row whose probe succeeded is gone,
  the row whose probe failed is kept, and the wrapped call ends with \<open>None\<close>.
\<close>

theorem label_drop_excludes_good_row:
  "fst (salary_k [(''df'', DataFrame [(IntL 0, 5)])] (world0 []))
     = Inr (DataFrame [(IntL 0, 5000)]) \<and>
   fst (salary_k [(''df'', DataFrame [(IntL 1, 0)])] (world0 [])) = Inl TypeError \<and>
   iloc [(IntL 1, 0), (IntL 0, 5 :: nat)] (IntL 0) = Some [(IntL 1, 0)] \<and>
   iloc [(IntL 1, 0), (IntL 0, 5 :: nat)] (IntL 1) = Some [(IntL 0, 5)] \<and>
   drop_rows {IntL 0} [(IntL 1, 0), (IntL 0, 5 :: nat)] = Some [(IntL 1, 0)] \<and>
   loop_body salary_k False ''df'' [(''df'', DataFrame [(IntL 1, 0), (IntL 0, 5)])]
       [(IntL 1, 0), (IntL 0, 5)] (world0 [])
     = Again [(IntL 0, 0)] [(''df'', DataFrame [(IntL 1, 0)])] ((world0 [])\<lparr>ncalls := 3\<rparr>) \<and>
   fst (wrapper salary_k [(''df'', DataFrame [(IntL 1, 0), (IntL 0, 5)])] (world0 []))
     = Inr PyNone"
  by (simp add: run_defs salary_k_def)

text \<open>
  With the labels \<open>1, 2\<close> the label \<open>2\<close> is no position of the frame:
  \<open>df.iloc[[2]]\<close> raises in the handler, and the \<open>IndexError\<close> leaves the wrapper.
\<close>

lemma label_outside_frame_raises:
  "fst (wrapper unique_key [(''df'', DataFrame [(IntL 1, 7), (IntL 2, 7)])] (world0 []))
     = Inl IndexError"
  by (simp add: run_defs unique_key_def)

subsection \<open>Each round shrinks the frame\<close>

lemma probe_rows_bounds:
  "probe_rows func g name df xs bad ba w = Inr (bad', ba', w') \<Longrightarrow>
     bad \<subseteq> bad' \<and> bad' \<subseteq> bad \<union> set xs"
proof (induction xs arbitrary: bad ba w)
  case Nil
  then show ?case by simp
next
  case (Cons i xs)
  from Cons.prems obtain raised ba1 w1 where
    p: "probe func g name df i ba w = Some (raised, ba1, w1)"
    by (cases "probe func g name df i ba w") auto
  with Cons.prems have
    "probe_rows func g name df xs (if raised then insert i bad else bad) ba1 w1
       = Inr (bad', ba', w')"
    by simp
  from Cons.IH [OF this] show ?case by (auto split: if_splits)
qed

lemma drop_rows_shrinks:
  assumes "probe_rows func g df_name df (map fst df) {} ba1 w1 = Inr (bad_rows, ba2, w2)"
    and "bad_rows \<noteq> {}"
  shows "\<exists>dropped. drop_rows bad_rows df = Some dropped \<and>
           length (reset_index dropped) < length df"
proof -
  from probe_rows_bounds [OF assms(1)] have sub: "bad_rows \<subseteq> fst ` set df" by auto
  from assms(2) obtain l where l: "l \<in> bad_rows" by auto
  with sub obtain r where "(l, r) \<in> set df" by force
  with l have "length (filter (\<lambda>(l, r). l \<notin> bad_rows) df) < length df"
    by (intro length_filter_less [of "(l, r)"]) auto
  with sub show ?thesis by (simp add: drop_rows_def)
qed



subsection \<open>Operations that fail row by row\<close>

lemma frame_conv: "frame rows = map (\<lambda>i. (IntL (int i), rows ! i)) [0..<length rows]"
  by (rule nth_equalityI) (simp_all add: frame_def)

lemma map_fst_frame: "map fst (frame rows) = map (\<lambda>i. IntL (int i)) [0..<length rows]"
  by (simp add: frame_conv comp_def)

lemma map_snd_frame [simp]: "map snd (frame rows) = rows"
  by (simp add: frame_def)

lemma iloc_frame:
  "i < length rows \<Longrightarrow> iloc (frame rows) (IntL (int i)) = Some [(IntL (int i), rows ! i)]"
  by (simp add: frame_conv)

lemma frame_eq_Nil [simp]: "frame rows = [] \<longleftrightarrow> rows = []"
  by (cases rows) (simp_all add: frame_def upt_rec)

lemma keep_good_rows:
  assumes "\<And>i. i < length rows \<Longrightarrow> (IntL (int i) \<in> bad \<longleftrightarrow> faulty (rows ! i))"
  shows "map snd (filter (\<lambda>(l, r). l \<notin> bad) (frame rows)) = filter (\<lambda>r. \<not> faulty r) rows"
proof -
  have "filter (\<lambda>r. \<not> faulty r) rows
          = filter (\<lambda>r. \<not> faulty r) (map (\<lambda>j. rows ! j) [0..<length rows])"
    by (simp add: map_nth)
  also have "\<dots> = map (\<lambda>j. rows ! j) (filter (\<lambda>j. \<not> faulty (rows ! j)) [0..<length rows])"
    by (simp add: filter_map comp_def)
  also have "filter (\<lambda>j. \<not> faulty (rows ! j)) [0..<length rows]
               = filter (\<lambda>j. IntL (int j) \<notin> bad) [0..<length rows]"
    using assms by (intro filter_cong) auto
  finally show ?thesis
    by (simp add: frame_conv filter_map comp_def)
qed

lemma fst_invoke: "fst (invoke func a v) = fst (func a v)"
  by (simp add: invoke_def split: prod.splits)

lemma globals_invoke:
  "func_globals (snd (snd (invoke func a v))) = func_globals (snd (snd (func a v)))"
  by (simp add: invoke_def split: prod.splits)

lemma per_record_loop:
  fixes func :: "('r, 's) host"
  assumes I0: "I ba w"
    and H: "\<And>d b v. I b v \<Longrightarrow>
      (case (if g then invoke func b (set_global name (DataFrame d) v)
             else invoke func (AList.update name (DataFrame d) b) v) of
         (Inl e, b', v') \<Rightarrow> (\<exists>x\<in>snd ` set d. faulty x) \<and> I b' v'
       | (Inr y, b', v') \<Rightarrow> (\<forall>x\<in>snd ` set d. \<not> faulty x) \<and> I b' v' \<and>
            (if g then map_of (func_globals v') name = Some (res d) else y = res d))"
    and ne: "rows = [] \<or> (\<exists>x\<in>set rows. \<not> faulty x)"
  shows "fst (wrapper_loop func g name ba (frame rows) (- 1) w)
           = Inr (if g then res (frame (filter (\<lambda>x. \<not> faulty x) rows))
                  else if res (frame (filter (\<lambda>x. \<not> faulty x) rows)) \<noteq> PyNone
                       then res (frame (filter (\<lambda>x. \<not> faulty x) rows))
                       else DataFrame (frame (filter (\<lambda>x. \<not> faulty x) rows)))"
proof -
  let ?val = "\<lambda>d. if g then res d else if res d \<noteq> PyNone then res d else DataFrame d"
  have att: "\<exists>b' v'. attempt func g name b d v
                 = (if \<exists>x\<in>snd ` set d. faulty x then None else Some (?val d), b', v') \<and> I b' v'"
    if "I b v" for b d v
    using H [OF that, of d]
    by (cases g) (auto simp: attempt_def split: prod.splits sum.splits)
  have prb: "\<exists>b' v'. probe func g name (frame rows) (IntL (int i)) b v
                 = Some (faulty (rows ! i), b', v') \<and> I b' v'"
    if "I b v" "i < length rows" for b v i
    using H [OF that(1), of "[(IntL (int i), rows ! i)]"] iloc_frame [OF that(2)]
    by (cases g) (auto simp: probe_def split: prod.splits sum.splits)
  have prs: "\<exists>b' v'. probe_rows func g name (frame rows) (map (\<lambda>i. IntL (int i)) xs) bad b v
                 = Inr (bad \<union> {IntL (int i) | i. i \<in> set xs \<and> faulty (rows ! i)}, b', v')
               \<and> I b' v'"
    if "I b v" "\<forall>i\<in>set xs. i < length rows" for xs bad b v
    using that
  proof (induction xs arbitrary: bad b v)
    case Nil
    then show ?case by simp
  next
    case (Cons i xs)
    from Cons.prems obtain b1 v1 where
      p: "probe func g name (frame rows) (IntL (int i)) b v = Some (faulty (rows ! i), b1, v1)"
      and i1: "I b1 v1"
      using prb [of b v i] by auto
    from Cons.prems have "\<forall>i\<in>set xs. i < length rows" by simp
    from Cons.IH [OF i1 this, of "if faulty (rows ! i) then insert (IntL (int i)) bad else bad"]
    obtain b' v' where
      r: "probe_rows func g name (frame rows) (map (\<lambda>i. IntL (int i)) xs)
            (if faulty (rows ! i) then insert (IntL (int i)) bad else bad) b1 v1
          = Inr ((if faulty (rows ! i) then insert (IntL (int i)) bad else bad)
                   \<union> {IntL (int i) | i. i \<in> set xs \<and> faulty (rows ! i)}, b', v')"
      and i2: "I b' v'"
      by blast
    have "(if faulty (rows ! i) then insert (IntL (int i)) bad else bad)
            \<union> {IntL (int i) | i. i \<in> set xs \<and> faulty (rows ! i)}
          = bad \<union> {IntL (int j) | j. j \<in> set (i # xs) \<and> faulty (rows ! j)}"
      by auto
    with p r i2 show ?case by simp
  qed
  let ?C' = "frame (filter (\<lambda>x. \<not> faulty x) rows)"
  show ?thesis
  proof (cases "\<exists>x\<in>set rows. faulty x")
    case False
    then have same: "filter (\<lambda>x. \<not> faulty x) rows = rows" by (induction rows) auto
    from False have nf: "\<not> (\<exists>x\<in>snd ` set (frame rows). faulty x)"
      by (metis map_snd_frame set_map)
    from att [OF I0, of "frame rows"] nf obtain b1 w1 where
      "attempt func g name ba (frame rows) w = (Some (?val (frame rows)), b1, w1)"
      by auto
    then show ?thesis
      by (simp add: same wrapper_loop.simps [of func g name ba "frame rows"] loop_body_def)
  next
    case True
    then have yf: "\<exists>x\<in>snd ` set (frame rows). faulty x"
      by (metis map_snd_frame set_map)
    from att [OF I0, of "frame rows"] yf obtain b1 w1 where
      a1: "attempt func g name ba (frame rows) w = (None, b1, w1)" and i1: "I b1 w1"
      by auto
    let ?bad = "{IntL (int i) | i. i \<in> set [0..<length rows] \<and> faulty (rows ! i)}"
    from prs [OF i1, of "[0..<length rows]" "{}"] obtain b2 w2 where
      pr: "probe_rows func g name (frame rows) (map fst (frame rows)) {} b1 w1
             = Inr (?bad, b2, w2)"
      and i2: "I b2 w2"
      by (auto simp: map_fst_frame)
    have mem: "IntL (int i) \<in> ?bad \<longleftrightarrow> faulty (rows ! i)" if "i < length rows" for i
      using that by auto
    from True obtain i where "i < length rows" "faulty (rows ! i)"
      by (auto simp: in_set_conv_nth)
    then have nonempty: "?bad \<noteq> {}" by auto
    from drop_rows_shrinks [OF pr nonempty] obtain dropped where
      d: "drop_rows ?bad (frame rows) = Some dropped"
      and lt: "length (reset_index dropped) < length (frame rows)"
      by blast
    from d have "dropped = filter (\<lambda>(l, r). l \<notin> ?bad) (frame rows)"
      by (auto simp: drop_rows_def split: if_splits)
    then have rd: "reset_index dropped = ?C'"
      using keep_good_rows [of rows ?bad faulty, OF mem] by (simp add: reset_index_def)
    from True ne have "\<exists>x\<in>set rows. \<not> faulty x" by auto
    then have "filter (\<lambda>x. \<not> faulty x) rows \<noteq> []" by (auto simp: filter_empty_conv)
    then have ne': "length ?C' \<noteq> 0" by simp
    from a1 pr nonempty d rd ne' have body:
      "loop_body func g name ba (frame rows) w = Again ?C' b2 w2"
      by (simp add: loop_body_def Let_def)
    have "snd ` set ?C' = set (filter (\<lambda>x. \<not> faulty x) rows)"
      by (metis map_snd_frame set_map)
    then have good: "\<not> (\<exists>x\<in>snd ` set ?C'. faulty x)"
      by simp
    from att [OF i2, of ?C'] good obtain b3 w3 where
      a2: "attempt func g name b2 ?C' w2 = (Some (?val ?C'), b3, w3)"
      by auto
    have "wrapper_loop func g name ba (frame rows) (- 1) w
            = wrapper_loop func g name b2 ?C' (int (length (frame rows))) w2"
      using body by (simp add: wrapper_loop.simps [of func g name ba "frame rows"])
    also have "\<dots> = (Inr (?val ?C'), b3, w3)"
      using lt rd a2 by (simp add: wrapper_loop.simps [of func g name b2 ?C'] loop_body_def)
    finally show ?thesis by simp
  qed
qed

text \<open>
  C3, as the code has it.  Let \<open>I\<close> be a property of the arguments and the world that
  holds at the call of the wrapper and that every call of \<open>func\<close> keeps (the other
  arguments are what they were, say).  Where \<open>I\<close> holds, let \<open>func\<close> fail on a frame
  exactly when one of its rows is \<open>faulty\<close>, and let its result on a frame without
  faulty rows be \<open>res\<close> of that frame.  Let the frame have the labels \<open>0..n-1\<close> and
  let it be empty or hold a row that is not faulty.  Then \<open>res\<close> of the rows that are
  not faulty (in their order, labelled \<open>0..k-1\<close>) is what \<open>func\<close> gives on those rows
  with the arguments and the world of the call, and with the frame among the arguments
  the wrapped call returns it when it is not \<open>None\<close>, and those rows themselves when
  it is \<open>None\<close>.  With the frame in the globals, where \<open>res\<close> is the value \<open>func\<close>
  leaves in the global binding, the wrapped call returns \<open>res\<close> of those rows.  A frame
  whose rows are all faulty and a frame with other labels are not covered here.
\<close>

theorem per_record_independence:
  "(find_df ba = Some (df_name, frame rows) \<and> I ba w \<and>
    (\<forall>d b v. I b v \<longrightarrow>
       (case invoke func (AList.update df_name (DataFrame d) b) v of
          (Inl e, b', v') \<Rightarrow> (\<exists>x\<in>snd ` set d. faulty x) \<and> I b' v'
        | (Inr y, b', v') \<Rightarrow> (\<forall>x\<in>snd ` set d. \<not> faulty x) \<and> y = res d \<and> I b' v')) \<and>
    (rows = [] \<or> (\<exists>x\<in>set rows. \<not> faulty x)) \<longrightarrow>
      fst (func (AList.update df_name (DataFrame (frame (filter (\<lambda>x. \<not> faulty x) rows))) ba) w)
        = Inr (res (frame (filter (\<lambda>x. \<not> faulty x) rows))) \<and>
      fst (wrapper func ba w)
        = Inr (if res (frame (filter (\<lambda>x. \<not> faulty x) rows)) \<noteq> PyNone
               then res (frame (filter (\<lambda>x. \<not> faulty x) rows))
               else DataFrame (frame (filter (\<lambda>x. \<not> faulty x) rows))))
   \<and> (find_df ba = None \<and> find_df (func_globals w) = Some (df_name, frame rows) \<and> I ba w \<and>
       (\<forall>d b v. I b v \<longrightarrow>
          (case invoke func b (set_global df_name (DataFrame d) v) of
             (Inl e, b', v') \<Rightarrow> (\<exists>x\<in>snd ` set d. faulty x) \<and> I b' v'
           | (Inr y, b', v') \<Rightarrow> (\<forall>x\<in>snd ` set d. \<not> faulty x) \<and>
                map_of (func_globals v') df_name = Some (res d) \<and> I b' v')) \<and>
       (rows = [] \<or> (\<exists>x\<in>set rows. \<not> faulty x)) \<longrightarrow>
      map_of (func_globals (snd (snd (func ba
          (set_global df_name (DataFrame (frame (filter (\<lambda>x. \<not> faulty x) rows))) w))))) df_name
        = Some (res (frame (filter (\<lambda>x. \<not> faulty x) rows))) \<and>
      fst (wrapper func ba w) = Inr (res (frame (filter (\<lambda>x. \<not> faulty x) rows))))"
proof (intro conjI impI)
  let ?C' = "frame (filter (\<lambda>x. \<not> faulty x) rows)"
  assume a: "find_df ba = Some (df_name, frame rows) \<and> I ba w \<and>
    (\<forall>d b v. I b v \<longrightarrow>
       (case invoke func (AList.update df_name (DataFrame d) b) v of
          (Inl e, b', v') \<Rightarrow> (\<exists>x\<in>snd ` set d. faulty x) \<and> I b' v'
        | (Inr y, b', v') \<Rightarrow> (\<forall>x\<in>snd ` set d. \<not> faulty x) \<and> y = res d \<and> I b' v')) \<and>
    (rows = [] \<or> (\<exists>x\<in>set rows. \<not> faulty x))"
  then have I0: "I ba w" and ne: "rows = [] \<or> (\<exists>x\<in>set rows. \<not> faulty x)"
    and f: "find_df ba = Some (df_name, frame rows)"
    by blast+
  from a have A: "\<forall>d b v. I b v \<longrightarrow>
       (case invoke func (AList.update df_name (DataFrame d) b) v of
          (Inl e, b', v') \<Rightarrow> (\<exists>x\<in>snd ` set d. faulty x) \<and> I b' v'
        | (Inr y, b', v') \<Rightarrow> (\<forall>x\<in>snd ` set d. \<not> faulty x) \<and> y = res d \<and> I b' v')"
    by (rule conjunct1 [OF conjunct2 [OF conjunct2]])
  have h: "case invoke func (AList.update df_name (DataFrame d) b) v of
          (Inl e, b', v') \<Rightarrow> (\<exists>x\<in>snd ` set d. faulty x) \<and> I b' v'
        | (Inr y, b', v') \<Rightarrow> (\<forall>x\<in>snd ` set d. \<not> faulty x) \<and> y = res d \<and> I b' v'"
    if "I b v" for d b v
    using A [THEN spec, of d, THEN spec, of b, THEN spec, of v] that by (rule mp)
  have H: "case (if False then invoke func b (set_global df_name (DataFrame d) v)
             else invoke func (AList.update df_name (DataFrame d) b) v) of
         (Inl e, b', v') \<Rightarrow> (\<exists>x\<in>snd ` set d. faulty x) \<and> I b' v'
       | (Inr y, b', v') \<Rightarrow> (\<forall>x\<in>snd ` set d. \<not> faulty x) \<and> I b' v' \<and>
            (if False then map_of (func_globals v') df_name = Some (res d) else y = res d)"
    if "I b v" for d b v
    using h [OF that, of d] by (auto split: prod.splits sum.splits)
  have "snd ` set ?C' = set (filter (\<lambda>x. \<not> faulty x) rows)"
    by (metis map_snd_frame set_map)
  then have good: "\<not> (\<exists>x\<in>snd ` set ?C'. faulty x)" by simp
  with h [OF I0, of ?C'] show "fst (func (AList.update df_name (DataFrame ?C') ba) w) = Inr (res ?C')"
    unfolding fst_invoke [of func "AList.update df_name (DataFrame ?C') ba" w, symmetric]
    by (cases "invoke func (AList.update df_name (DataFrame ?C') ba) w")
       (auto split: sum.splits)
  have "fst (wrapper_loop func False df_name ba (frame rows) (- 1) w)
          = Inr (if False then res ?C'
                 else if res ?C' \<noteq> PyNone then res ?C' else DataFrame ?C')"
    using I0 H ne by (rule per_record_loop)
  with f show "fst (wrapper func ba w)
      = Inr (if res ?C' \<noteq> PyNone then res ?C' else DataFrame ?C')"
    by (simp add: wrapper_def)
next
  let ?C' = "frame (filter (\<lambda>x. \<not> faulty x) rows)"
  assume a: "find_df ba = None \<and> find_df (func_globals w) = Some (df_name, frame rows) \<and> I ba w \<and>
       (\<forall>d b v. I b v \<longrightarrow>
          (case invoke func b (set_global df_name (DataFrame d) v) of
             (Inl e, b', v') \<Rightarrow> (\<exists>x\<in>snd ` set d. faulty x) \<and> I b' v'
           | (Inr y, b', v') \<Rightarrow> (\<forall>x\<in>snd ` set d. \<not> faulty x) \<and>
                map_of (func_globals v') df_name = Some (res d) \<and> I b' v')) \<and>
       (rows = [] \<or> (\<exists>x\<in>set rows. \<not> faulty x))"
  then have I0: "I ba w" and ne: "rows = [] \<or> (\<exists>x\<in>set rows. \<not> faulty x)"
    and f: "find_df ba = None" "find_df (func_globals w) = Some (df_name, frame rows)"
    by blast+
  from a have A: "\<forall>d b v. I b v \<longrightarrow>
          (case invoke func b (set_global df_name (DataFrame d) v) of
             (Inl e, b', v') \<Rightarrow> (\<exists>x\<in>snd ` set d. faulty x) \<and> I b' v'
           | (Inr y, b', v') \<Rightarrow> (\<forall>x\<in>snd ` set d. \<not> faulty x) \<and>
                map_of (func_globals v') df_name = Some (res d) \<and> I b' v')"
    by (rule conjunct1 [OF conjunct2 [OF conjunct2 [OF conjunct2]]])
  have h: "case invoke func b (set_global df_name (DataFrame d) v) of
             (Inl e, b', v') \<Rightarrow> (\<exists>x\<in>snd ` set d. faulty x) \<and> I b' v'
           | (Inr y, b', v') \<Rightarrow> (\<forall>x\<in>snd ` set d. \<not> faulty x) \<and>
                map_of (func_globals v') df_name = Some (res d) \<and> I b' v'"
    if "I b v" for d b v
    using A [THEN spec, of d, THEN spec, of b, THEN spec, of v] that by (rule mp)
  have H: "case (if True then invoke func b (set_global df_name (DataFrame d) v)
             else invoke func (AList.update df_name (DataFrame d) b) v) of
         (Inl e, b', v') \<Rightarrow> (\<exists>x\<in>snd ` set d. faulty x) \<and> I b' v'
       | (Inr y, b', v') \<Rightarrow> (\<forall>x\<in>snd ` set d. \<not> faulty x) \<and> I b' v' \<and>
            (if True then map_of (func_globals v') df_name = Some (res d) else y = res d)"
    if "I b v" for d b v
    using h [OF that, of d] by (auto split: prod.splits sum.splits)
  have "snd ` set ?C' = set (filter (\<lambda>x. \<not> faulty x) rows)"
    by (metis map_snd_frame set_map)
  then have good: "\<not> (\<exists>x\<in>snd ` set ?C'. faulty x)" by simp
  with h [OF I0, of ?C']
  show "map_of (func_globals (snd (snd (func ba (set_global df_name (DataFrame ?C') w))))) df_name
          = Some (res ?C')"
    unfolding globals_invoke [of func ba "set_global df_name (DataFrame ?C') w", symmetric]
    by (cases "invoke func ba (set_global df_name (DataFrame ?C') w)")
       (auto split: sum.splits)
  have "fst (wrapper_loop func True df_name ba (frame rows) (- 1) w)
          = Inr (if True then res ?C'
                 else if res ?C' \<noteq> PyNone then res ?C' else DataFrame ?C')"
    using I0 H ne by (rule per_record_loop)
  with f show "fst (wrapper func ba w) = Inr (res ?C')"
    by (simp add: wrapper_def)
qed

lemma scale_per_record:
  assumes "map_of b ''factor'' = Some (Opaque k)"
  shows "case invoke scale (AList.update ''df'' (DataFrame d) b) v of
           (Inl e, b', v') \<Rightarrow> (\<exists>x\<in>snd ` set d. x = 0) \<and> map_of b' ''factor'' = Some (Opaque k)
         | (Inr y, b', v') \<Rightarrow> (\<forall>x\<in>snd ` set d. \<not> x = 0) \<and>
              y = DataFrame (map (\<lambda>(l, x). (l, x * k)) d) \<and>
              map_of b' ''factor'' = Some (Opaque k)"
  using assms by (auto simp: invoke_def scale_def update_conv' intro!: gr0I)

lemma modify_global_per_record:
  "case invoke modify_global b (set_global ''df_global'' (DataFrame d) v) of
     (Inl e, b', v') \<Rightarrow> (\<exists>x\<in>snd ` set d. x = 0) \<and> True
   | (Inr y, b', v') \<Rightarrow> (\<forall>x\<in>snd ` set d. \<not> x = 0) \<and>
        map_of (func_globals v') ''df_global'' = Some (DataFrame (map (\<lambda>(l, x). (l, Suc x)) d)) \<and>
        True"
  by (auto simp: invoke_def modify_global_def set_global_def update_conv' intro!: gr0I)

text \<open>
  \<open>scale\<close> with the factor \<open>3\<close> on the rows \<open>5, 0, 7\<close>, where \<open>I\<close> says that the
  argument \<open>factor\<close> is \<open>3\<close>, and \<open>modify_global\<close> on the rows \<open>3, 0\<close>; the row
  \<open>0\<close> is the faulty one.
\<close>

theorem per_record_independence_witness:
  "find_df [(''df'', DataFrame (frame [5, 0, 7 :: nat])), (''factor'', Opaque 3)]
     = Some (''df'', frame [5, 0, 7]) \<and>
   map_of [(''df'', DataFrame (frame [5, 0, 7 :: nat])), (''factor'', Opaque 3)] ''factor''
     = Some (Opaque 3) \<and>
   fst (scale (AList.update ''df'' (DataFrame (frame [5, 7]))
                [(''df'', DataFrame (frame [5, 0, 7])), (''factor'', Opaque 3)]) (world0 []))
     = Inr (DataFrame (frame [15, 21])) \<and>
   fst (wrapper scale [(''df'', DataFrame (frame [5, 0, 7])), (''factor'', Opaque 3)] (world0 []))
     = Inr (DataFrame (frame [15, 21])) \<and>
   find_df ([] :: nat bindings) = None \<and>
   find_df (func_globals (world0 [(''df_global'', DataFrame (frame [3, 0]))]))
     = Some (''df_global'', frame [3, 0]) \<and>
   fst (wrapper modify_global [] (world0 [(''df_global'', DataFrame (frame [3, 0]))]))
     = Inr (DataFrame (frame [4]))"
proof -
  let ?ba = "[(''df'', DataFrame (frame [5, 0, 7 :: nat])), (''factor'', Opaque 3)]"
  let ?I = "\<lambda>(b :: nat bindings) (v :: (nat, unit) world). map_of b ''factor'' = Some (Opaque 3)"
  let ?res = "\<lambda>d :: nat frame. DataFrame (map (\<lambda>(l, x). (l, x * 3)) d)"
  have a1: "find_df ?ba = Some (''df'', frame [5, 0, 7])" by simp
  have a2: "?I ?ba (world0 [])" by simp
  have a3: "\<forall>d b v. ?I b v \<longrightarrow>
       (case invoke scale (AList.update ''df'' (DataFrame d) b) v of
          (Inl e, b', v') \<Rightarrow> (\<exists>x\<in>snd ` set d. x = 0) \<and> ?I b' v'
        | (Inr y, b', v') \<Rightarrow> (\<forall>x\<in>snd ` set d. \<not> x = 0) \<and> y = ?res d \<and> ?I b' v')"
    by (intro allI impI) (erule scale_per_record)
  have a4: "[5, 0, 7 :: nat] = [] \<or> (\<exists>x\<in>set [5, 0, 7 :: nat]. \<not> x = 0)" by simp
  have b1: "find_df ([] :: nat bindings) = None" by simp
  have b2: "find_df (func_globals (world0 [(''df_global'', DataFrame (frame [3, 0]))]))
     = Some (''df_global'', frame [3, 0])"
    by (simp add: world0_def)
  have b3: "\<forall>d b v. True \<longrightarrow>
       (case invoke modify_global b (set_global ''df_global'' (DataFrame d) v) of
          (Inl e, b', v') \<Rightarrow> (\<exists>x\<in>snd ` set d. x = 0) \<and> True
        | (Inr y, b', v') \<Rightarrow> (\<forall>x\<in>snd ` set d. \<not> x = 0) \<and>
             map_of (func_globals v') ''df_global''
               = Some (DataFrame (map (\<lambda>(l, x). (l, Suc x)) d)) \<and> True)"
    by (intro allI impI) (rule modify_global_per_record)
  have b4: "[3, 0 :: nat] = [] \<or> (\<exists>x\<in>set [3, 0 :: nat]. \<not> x = 0)" by simp
  note t1 = per_record_independence [where ba = ?ba and df_name = "''df''"
      and rows = "[5, 0, 7]" and func = scale and faulty = "\<lambda>x. x = 0" and I = ?I
      and res = ?res and w = "world0 []"]
  note t2 = per_record_independence [where ba = "[]" and df_name = "''df_global''"
      and rows = "[3, 0]" and func = modify_global and faulty = "\<lambda>x. x = 0"
      and I = "\<lambda>b v. True" and res = "\<lambda>d. DataFrame (map (\<lambda>(l, x). (l, Suc x)) d)"
      and w = "world0 [(''df_global'', DataFrame (frame [3, 0]))]"]
  have e1: "frame (filter (\<lambda>x. \<not> x = 0) [5, 0, 7 :: nat]) = frame [5, 7]" by simp
  have e2: "?res (frame [5, 7]) = DataFrame (frame [15, 21])"
    by (simp add: frame_def upt_rec)
  have e3: "frame (filter (\<lambda>x. \<not> x = 0) [3, 0 :: nat]) = frame [3]" by simp
  have e4: "DataFrame (map (\<lambda>(l, x). (l, Suc x)) (frame [3 :: nat])) = DataFrame (frame [4])"
    by (simp add: frame_def upt_rec)
  from t1 a1 a2 a3 a4 have
    "fst (scale (AList.update ''df'' (DataFrame (frame (filter (\<lambda>x. \<not> x = 0) [5, 0, 7]))) ?ba)
           (world0 []))
       = Inr (?res (frame (filter (\<lambda>x. \<not> x = 0) [5, 0, 7]))) \<and>
     fst (wrapper scale ?ba (world0 []))
       = Inr (if ?res (frame (filter (\<lambda>x. \<not> x = 0) [5, 0, 7])) \<noteq> PyNone
              then ?res (frame (filter (\<lambda>x. \<not> x = 0) [5, 0, 7]))
              else DataFrame (frame (filter (\<lambda>x. \<not> x = 0) [5, 0, 7])))"
    by blast
  then have c1: "fst (scale (AList.update ''df'' (DataFrame (frame [5, 7])) ?ba) (world0 []))
       = Inr (DataFrame (frame [15, 21]))"
    and c2: "fst (wrapper scale ?ba (world0 [])) = Inr (DataFrame (frame [15, 21]))"
    unfolding e1 e2 by simp_all
  from t2 b1 b2 b3 b4 have
    "fst (wrapper modify_global [] (world0 [(''df_global'', DataFrame (frame [3, 0]))]))
       = Inr (DataFrame (map (\<lambda>(l, x). (l, Suc x)) (frame (filter (\<lambda>x. \<not> x = 0) [3, 0]))))"
    by blast
  then have c3: "fst (wrapper modify_global [] (world0 [(''df_global'', DataFrame (frame [3, 0]))]))
       = Inr (DataFrame (frame [4]))"
    unfolding e3 e4 .
  from a1 a2 c1 c2 b1 b2 c3 show ?thesis by (intro conjI)
qed

text \<open>
  C3 as the spec states it (the result is the operation applied to the rows that succeed
  alone) fails for \<open>salary_k_in_place\<close> on the rows \<open>5, 0, 7\<close>.  The rows that succeed
  alone are \<open>5, 7\<close>; on them the operation returns \<open>None\<close> and turns its argument
  into \<open>5000, 7000\<close>; the wrapped call returns the frame \<open>5, 7\<close>, which is neither.
\<close>

theorem per_record_result_counterexample:
  "fst (salary_k_in_place [(''df'', DataFrame [(IntL 0, 5)])] (world0 [])) = Inr PyNone \<and>
   fst (salary_k_in_place [(''df'', DataFrame [(IntL 1, 0)])] (world0 [])) = Inl TypeError \<and>
   fst (salary_k_in_place [(''df'', DataFrame [(IntL 2, 7)])] (world0 [])) = Inr PyNone \<and>
   salary_k_in_place [(''df'', DataFrame (frame [5, 7]))] (world0 [])
     = (Inr PyNone, [(''df'', DataFrame (frame [5000, 7000]))], world0 []) \<and>
   fst (wrapper salary_k_in_place [(''df'', DataFrame (frame [5, 0, 7]))] (world0 []))
     = Inr (DataFrame (frame [5, 7])) \<and>
   fst (wrapper salary_k_in_place [(''df'', DataFrame (frame [5, 0, 7]))] (world0 []))
     \<noteq> fst (salary_k_in_place [(''df'', DataFrame (frame [5, 7]))] (world0 [])) \<and>
   fst (wrapper salary_k_in_place [(''df'', DataFrame (frame [5, 0, 7]))] (world0 []))
     \<noteq> Inr (DataFrame (frame [5000, 7000]))"
  by (simp add: run_defs salary_k_in_place_def)

end
